theory Spec2Isabelle
  imports Complex_Main "HOL-Library.Sublist"
begin

section \<open>S.M.A.R.T. ATA attribute checks (smart\_ata.py)\<close>

text \<open>
  A shallow embedding of \<^verbatim>\<open>cmk/plugins/smart/agent_based/smart_ata.py\<close>.
  Python's unbounded integers are \<^typ>\<open>int\<close>. Python's floats (timestamps, rates)
  are exact rationals, \<^typ>\<open>rat\<close>: rounding is not modelled. A generator is the
  list of what it yields, together with the exception that ended it, if one did.
\<close>

subsection \<open>Results, metrics and services of the host framework\<close>

datatype State = OK | WARN | CRIT | UNKNOWN

datatype emitted = Result State string | Metric string int

datatype 'p Service = Service string 'p

text \<open>
  The exceptions a check run can end with. \<open>GetRateError\<close> is the framework's
  "ignore the results of this run" signal of the rate helper; \<open>ZeroDivisionError\<close> is
  Python's own.
\<close>

datatype error = GetRateError | ZeroDivisionError

type_synonym CheckResult = "emitted list \<times> error option"

subsection \<open>Rendering integers (Python's \<^verbatim>\<open>str\<close> and f-string \<^verbatim>\<open>{value}\<close>)\<close>

fun str_nat :: "nat \<Rightarrow> string" where
  "str_nat n =
     (if n < 10 then [''0123456789'' ! n]
      else str_nat (n div 10) @ [''0123456789'' ! (n mod 10)])"

declare str_nat.simps [simp del]

definition str_int :: "int \<Rightarrow> string" where
  "str_int i = (if i < 0 then CHR ''-'' # str_nat (nat (- i)) else str_nat (nat i))"

subsection \<open>The section: disks and their SMART attributes\<close>

text \<open>
  Modelled from the spec: the section types of \<^verbatim>\<open>smart_posix.py\<close>
  (\<^verbatim>\<open>ATARawValue\<close>, \<^verbatim>\<open>ATATableEntry\<close>, \<^verbatim>\<open>Temperature\<close>,
  \<^verbatim>\<open>ATADevice\<close>, \<^verbatim>\<open>ATAAll\<close>, \<^verbatim>\<open>Section\<close>), which are not among the sources.
  An attribute entry has a numeric ID, a vendor name, a normalized value, a threshold and
  a raw value; a disk record is either ATA-capable or of another kind; an ATA disk has an
  optional temperature reading and an optional attribute collection; the section maps
  identity keys to disk records, in the order of the agent output. Field names carry a
  prefix where Python's name is taken in HOL (\<^verbatim>\<open>id\<close>, \<^verbatim>\<open>value\<close>).
\<close>

record ATARawValue =
  raw_value :: int

record ATATableEntry =
  attr_id :: int
  attr_name :: string
  attr_value :: int
  attr_thresh :: int
  attr_raw :: ATARawValue

record Temperature =
  current :: int

record ATADevice =
  device_name :: string

record ATAAll =
  device :: ATADevice
  model_name :: string
  serial_number :: string
  ata_smart_attributes :: "ATATableEntry list option"
  temperature :: "Temperature option"

datatype disk = ATA (ata: ATAAll) | NonATA string

type_synonym disk_key = "string \<times> string"

record Section =
  devices :: "(disk_key \<times> disk) list"

text \<open>
  Modelled from the spec: the method \<^verbatim>\<open>ATAAll.by_id\<close> of \<^verbatim>\<open>smart_posix.py\<close>,
  the lookup of an attribute entry by its numeric ID, with a clear "absent" result; a disk
  without an attribute collection has no entry for any ID.
\<close>

definition by_id :: "ATAAll \<Rightarrow> int \<Rightarrow> ATATableEntry option" where
  "by_id disk i =
     (case ata_smart_attributes disk of
        None \<Rightarrow> None
      | Some table \<Rightarrow> find (\<lambda>entry. attr_id entry = i) table)"

subsection \<open>Parameters\<close>

record DiscoveredParams =
  key :: disk_key

record AtaParams = DiscoveredParams +
  id_5 :: "int option"
  id_10 :: "int option"
  id_184 :: "int option"
  id_187 :: "int option"
  id_188 :: "int option"
  id_196 :: "int option"
  id_197 :: "int option"
  id_199 :: "int option"

record DiscoveryParam =
  item_type :: "string \<times> string option"

subsection \<open>The regression rule\<close>

text \<open>
  \<^verbatim>\<open>_check_against_discovery\<close> (lines 203 to 216). The leading underscore of the
  Python name is dropped.
\<close>

definition check_against_discovery :: "int \<Rightarrow> int option \<Rightarrow> string \<Rightarrow> string \<Rightarrow> emitted list" where
  "check_against_discovery v discovered_value label metric_name =
     (case discovered_value of
        Some d \<Rightarrow>
          (if v > d
           then [Result CRIT
                   (label @ '': '' @ str_int v @ '' (during discovery: '' @ str_int d @ '') (!!)'')]
           else [Result OK (label @ '': '' @ str_int v)])
      | None \<Rightarrow> [Result OK (label @ '': '' @ str_int v)])
     @ [Metric metric_name v]"

subsection \<open>Helpers of the host framework\<close>

text \<open>
  Modelled from the spec: the renderers of the framework that turn a number into text,
  \<^verbatim>\<open>render.timespan\<close> and the rendering \<^verbatim>\<open>check_levels\<close> uses when the caller names
  none. They are not among the sources, and the checks take them as a parameter.
\<close>

record rendering =
  timespan :: "int \<Rightarrow> string"
  default_rendering :: "int \<Rightarrow> string"

text \<open>
  Modelled from the spec: \<^verbatim>\<open>check_levels\<close> of the host framework, not among the
  sources, with the arguments this plugin passes: the value, optional fixed lower levels
  \<^verbatim>\<open>("fixed", (warn, crit))\<close>, a label, a renderer and an optional metric name. It
  yields one result, CRIT when the value is below the critical lower level, WARN when it
  is below the warning lower level, OK otherwise or without levels, and a metric only
  when a metric name is given.
\<close>

datatype levels = NoLevels | FixedLevels int int

definition check_levels ::
  "int \<Rightarrow> levels \<Rightarrow> string \<Rightarrow> (int \<Rightarrow> string) \<Rightarrow> string option \<Rightarrow> emitted list" where
  "check_levels v levels_lower label render_func metric_name =
     (case levels_lower of
        NoLevels \<Rightarrow> [Result OK (label @ '': '' @ render_func v)]
      | FixedLevels warn crit \<Rightarrow>
          (if v < crit
           then [Result CRIT (label @ '': '' @ render_func v @ '' (warn/crit below ''
                   @ render_func warn @ ''/'' @ render_func crit @ '')'')]
           else if v < warn
           then [Result WARN (label @ '': '' @ render_func v @ '' (warn/crit below ''
                   @ render_func warn @ ''/'' @ render_func crit @ '')'')]
           else [Result OK (label @ '': '' @ render_func v)]))
     @ (case metric_name of None \<Rightarrow> [] | Some m \<Rightarrow> [Metric m v])"

text \<open>
  The rate-tracking store of one monitored item: under a key, the last sample as
  (timestamp, counter value).
\<close>

type_synonym value_store = "string \<rightharpoonup> rat \<times> rat"

definition py_div :: "rat \<Rightarrow> rat \<Rightarrow> error + rat" where
  "py_div a b = (if b = 0 then Inl ZeroDivisionError else Inr (a / b))"

text \<open>
  Modelled from the spec: \<^verbatim>\<open>get_rate(store, key, timestamp, counter_value)\<close> of the
  host framework, not among the sources. It stores the current sample under the key and
  returns the rate (current - previous) / (now - previous time) from the previous sample.
  Without a previous sample no result is emitted and the store is only primed; the same
  holds when the timestamp has not advanced, so that no division by zero takes place. The
  caller has no branch for a missing rate: "no result" is the framework's exception that
  ends the run of the generator, \<open>GetRateError\<close>.
\<close>

definition get_rate :: "value_store \<Rightarrow> string \<Rightarrow> rat \<Rightarrow> rat \<Rightarrow> (error + rat) \<times> value_store" where
  "get_rate value_store k time v =
     (let store' = value_store(k \<mapsto> (time, v)) in
      case value_store k of
        None \<Rightarrow> (Inl GetRateError, store')
      | Some (last_time, last_value) \<Rightarrow>
          if time \<le> last_time then (Inl GetRateError, store')
          else (py_div (v - last_value) (time - last_time), store'))"

text \<open>
  Modelled from the spec: \<^verbatim>\<open>get_item\<close> of \<^verbatim>\<open>smart.py\<close>, which names the monitored
  item from the disk and the item type, and \<^verbatim>\<open>check_temperature\<close>, the generic
  temperature evaluator, are not among the sources either; the functions below take them
  as parameters.
\<close>

subsection \<open>Temperature\<close>

fun discovery_smart_ata_temp_loop ::
  "(disk \<Rightarrow> string \<Rightarrow> string) \<Rightarrow> DiscoveryParam \<Rightarrow> (disk_key \<times> disk) list
     \<Rightarrow> DiscoveredParams Service list" where
  "discovery_smart_ata_temp_loop get_item params [] = []"
| "discovery_smart_ata_temp_loop get_item params ((k, d) # rest) =
     (case d of
        ATA a \<Rightarrow>
          (if temperature a \<noteq> None
           then [Service (get_item d (fst (item_type params))) \<lparr>key = k\<rparr>]
           else [])
      | NonATA _ \<Rightarrow> [])
     @ discovery_smart_ata_temp_loop get_item params rest"

definition discovery_smart_ata_temp ::
  "(disk \<Rightarrow> string \<Rightarrow> string) \<Rightarrow> DiscoveryParam \<Rightarrow> Section \<Rightarrow> DiscoveredParams Service list" where
  "discovery_smart_ata_temp get_item params section =
     discovery_smart_ata_temp_loop get_item params (devices section)"

definition check_smart_ata_temp ::
  "(int \<Rightarrow> 'a DiscoveredParams_scheme \<Rightarrow> string \<Rightarrow> value_store \<Rightarrow> CheckResult \<times> value_store)
     \<Rightarrow> string \<Rightarrow> 'a DiscoveredParams_scheme \<Rightarrow> Section \<Rightarrow> value_store
     \<Rightarrow> CheckResult \<times> value_store" where
  "check_smart_ata_temp check_temperature item params section value_store =
     (case map_of (devices section) (key params) of
        Some (ATA disk) \<Rightarrow>
          (case temperature disk of
             None \<Rightarrow> (([], None), value_store)
           | Some t \<Rightarrow> check_temperature (current t) params (''smart_'' @ item) value_store)
      | _ \<Rightarrow> (([], None), value_store))"

subsection \<open>Discovery of the attribute baseline\<close>

fun discover_smart_ata_loop ::
  "(disk \<Rightarrow> string \<Rightarrow> string) \<Rightarrow> DiscoveryParam \<Rightarrow> (disk_key \<times> disk) list
     \<Rightarrow> AtaParams Service list" where
  "discover_smart_ata_loop get_item params [] = []"
| "discover_smart_ata_loop get_item params ((k, d) # rest) =
     (case d of
        ATA a \<Rightarrow>
          (if ata_smart_attributes a \<noteq> None
           then [Service (get_item d (fst (item_type params)))
                   \<lparr>key = k,
                    id_5 = (case by_id a 5 of Some entry \<Rightarrow> Some (raw_value (attr_raw entry)) | None \<Rightarrow> None),
                    id_10 = (case by_id a 10 of Some entry \<Rightarrow> Some (raw_value (attr_raw entry)) | None \<Rightarrow> None),
                    id_184 = (case by_id a 184 of Some entry \<Rightarrow> Some (raw_value (attr_raw entry)) | None \<Rightarrow> None),
                    id_187 = (case by_id a 187 of Some entry \<Rightarrow> Some (raw_value (attr_raw entry)) | None \<Rightarrow> None),
                    id_188 = (case by_id a 188 of Some entry \<Rightarrow> Some (raw_value (attr_raw entry)) | None \<Rightarrow> None),
                    id_196 = (case by_id a 196 of Some entry \<Rightarrow> Some (raw_value (attr_raw entry)) | None \<Rightarrow> None),
                    id_197 = (case by_id a 197 of Some entry \<Rightarrow> Some (raw_value (attr_raw entry)) | None \<Rightarrow> None),
                    id_199 = (case by_id a 199 of Some entry \<Rightarrow> Some (raw_value (attr_raw entry)) | None \<Rightarrow> None)\<rparr>]
           else [])
      | NonATA _ \<Rightarrow> [])
     @ discover_smart_ata_loop get_item params rest"

definition discover_smart_ata ::
  "(disk \<Rightarrow> string \<Rightarrow> string) \<Rightarrow> DiscoveryParam \<Rightarrow> Section \<Rightarrow> AtaParams Service list" where
  "discover_smart_ata get_item params section =
     discover_smart_ata_loop get_item params (devices section)"

subsection \<open>The rate-based check of the command timeout counter\<close>

definition MAX_COMMAND_TIMEOUTS_PER_HOUR :: int where
  "MAX_COMMAND_TIMEOUTS_PER_HOUR = 100"

text \<open>\<^verbatim>\<open>_check_command_timeout\<close> (lines 219 to 235).\<close>

definition check_command_timeout :: "ATAAll \<Rightarrow> value_store \<Rightarrow> rat \<Rightarrow> CheckResult \<times> value_store" where
  "check_command_timeout disk value_store now =
     (case by_id disk 188 of
        None \<Rightarrow> (([], None), value_store)
      | Some command_timeout_counter \<Rightarrow>
          (case get_rate value_store ''cmd_timeout'' now
                  (of_int (raw_value (attr_raw command_timeout_counter))) of
             (Inl exn, store') \<Rightarrow> (([], Some exn), store')
           | (Inr rate, store') \<Rightarrow>
               (((if rate \<ge> of_int MAX_COMMAND_TIMEOUTS_PER_HOUR / (60 * 60)
                  then [Result CRIT
                          (''Command Timeout Counter: ''
                           @ str_int (raw_value (attr_raw command_timeout_counter))
                           @ '' (counter increased more than ''
                           @ str_int MAX_COMMAND_TIMEOUTS_PER_HOUR @ '' counts / h (!!))'')]
                  else [Result OK
                          (''Command Timeout Counter: ''
                           @ str_int (raw_value (attr_raw command_timeout_counter)))])
                 @ [Metric ''harddrive_cmd_timeouts''
                      (raw_value (attr_raw command_timeout_counter))],
                 None),
                store')))"

subsection \<open>The attribute check\<close>

text \<open>
  \<^verbatim>\<open>_check_smart_ata\<close> (lines 105 to 201) evaluates the attributes of the resolved
  disk one after the other, each in an \<^verbatim>\<open>if\<close> block of its own that yields nothing
  when the disk has no such attribute. The blocks are given in the order of the source:
  attributes 5, 9, 10, 12, 184 and 187 (lines 115 to 161) before the call of the rate-based
  check, attributes 196, 197 and 199 (lines 165 to 200) after it. A parameter read with
  \<^verbatim>\<open>params.get\<close> is \<open>None\<close> when the key is missing as when \<open>None\<close> is recorded
  under it.
\<close>

definition yielded_for_5 :: "AtaParams \<Rightarrow> ATAAll \<Rightarrow> emitted list" where
  "yielded_for_5 params disk =
     (case by_id disk 5 of
        None \<Rightarrow> []
      | Some reallocated_sector_count \<Rightarrow>
          check_against_discovery (raw_value (attr_raw reallocated_sector_count))
            (id_5 params) ''Reallocated sectors'' ''harddrive_reallocated_sectors'')"

definition yielded_for_9 :: "rendering \<Rightarrow> ATAAll \<Rightarrow> emitted list" where
  "yielded_for_9 render disk =
     (case by_id disk 9 of
        None \<Rightarrow> []
      | Some power_on_hours \<Rightarrow>
          check_levels (raw_value (attr_raw power_on_hours)) NoLevels
            ''Powered on'' (timespan render) (Some ''uptime''))"

definition yielded_for_10 :: "AtaParams \<Rightarrow> ATAAll \<Rightarrow> emitted list" where
  "yielded_for_10 params disk =
     (case by_id disk 10 of
        None \<Rightarrow> []
      | Some spin_retries \<Rightarrow>
          check_against_discovery (raw_value (attr_raw spin_retries))
            (id_10 params) ''Spin retries'' ''harddrive_spin_retries'')"

definition yielded_for_12 :: "ATAAll \<Rightarrow> emitted list" where
  "yielded_for_12 disk =
     (case by_id disk 12 of
        None \<Rightarrow> []
      | Some power_cycles \<Rightarrow>
          check_levels (raw_value (attr_raw power_cycles)) NoLevels
            ''Power cycles'' str_int (Some ''harddrive_power_cycles''))"

definition yielded_for_184 :: "AtaParams \<Rightarrow> ATAAll \<Rightarrow> emitted list" where
  "yielded_for_184 params disk =
     (case by_id disk 184 of
        None \<Rightarrow> []
      | Some end_to_end_errors \<Rightarrow>
          check_against_discovery (raw_value (attr_raw end_to_end_errors))
            (id_184 params) ''End-to-End Errors'' ''harddrive_end_to_end_errors'')"

definition yielded_for_187 :: "AtaParams \<Rightarrow> ATAAll \<Rightarrow> emitted list" where
  "yielded_for_187 params disk =
     (case by_id disk 187 of
        None \<Rightarrow> []
      | Some uncorrectable_errors \<Rightarrow>
          check_against_discovery (raw_value (attr_raw uncorrectable_errors))
            (id_187 params) ''Uncorrectable errors'' ''harddrive_uncorrectable_errors'')"

definition yielded_before_rate :: "rendering \<Rightarrow> AtaParams \<Rightarrow> ATAAll \<Rightarrow> emitted list" where
  "yielded_before_rate render params disk =
     yielded_for_5 params disk @ yielded_for_9 render disk @ yielded_for_10 params disk
     @ yielded_for_12 disk @ yielded_for_184 params disk @ yielded_for_187 params disk"

definition yielded_for_196 :: "rendering \<Rightarrow> AtaParams \<Rightarrow> ATAAll \<Rightarrow> emitted list" where
  "yielded_for_196 render params disk =
     (case by_id disk 196 of
        None \<Rightarrow> []
      | Some reallocated_events \<Rightarrow>
          check_against_discovery (raw_value (attr_raw reallocated_events))
            (id_196 params) ''Reallocated events'' ''harddrive_reallocated_events''
          @ check_levels (attr_value reallocated_events)
              (FixedLevels (attr_thresh reallocated_events) (attr_thresh reallocated_events))
              ''Normalized value'' (default_rendering render) None)"

definition yielded_for_197 :: "AtaParams \<Rightarrow> ATAAll \<Rightarrow> emitted list" where
  "yielded_for_197 params disk =
     (case by_id disk 197 of
        None \<Rightarrow> []
      | Some pending_sectors \<Rightarrow>
          check_against_discovery (raw_value (attr_raw pending_sectors))
            (id_197 params) ''Pending sectors'' ''harddrive_pending_sectors'')"

definition yielded_for_199 :: "AtaParams \<Rightarrow> ATAAll \<Rightarrow> emitted list" where
  "yielded_for_199 params disk =
     (case by_id disk 199 of
        None \<Rightarrow> []
      | Some crc_errors \<Rightarrow>
          (if attr_name crc_errors = ''UDMA_CRC_Error_Count''
           then check_against_discovery (raw_value (attr_raw crc_errors))
                  (id_199 params) ''UDMA CRC errors'' ''harddrive_udma_crc_errors''
           else check_against_discovery (raw_value (attr_raw crc_errors))
                  (id_199 params) ''CRC errors'' ''harddrive_crc_errors''))"

definition yielded_after_rate :: "rendering \<Rightarrow> AtaParams \<Rightarrow> ATAAll \<Rightarrow> emitted list" where
  "yielded_after_rate render params disk =
     yielded_for_196 render params disk @ yielded_for_197 params disk
     @ yielded_for_199 params disk"

text \<open>
  The function itself; the primed name stands for the leading underscore. The rate-based
  check (line 163) runs between the two halves. If it raises, the generator ends there:
  what was yielded before stays yielded, and the attributes 196, 197 and 199 are not
  evaluated in this run.
\<close>

definition check_smart_ata' ::
  "rendering \<Rightarrow> string \<Rightarrow> AtaParams \<Rightarrow> Section \<Rightarrow> value_store \<Rightarrow> rat
     \<Rightarrow> CheckResult \<times> value_store" where
  "check_smart_ata' render item params section value_store now =
     (case map_of (devices section) (key params) of
        Some (ATA disk) \<Rightarrow>
          (case check_command_timeout disk value_store now of
             ((timeouts, None), store') \<Rightarrow>
               ((yielded_before_rate render params disk @ timeouts
                 @ yielded_after_rate render params disk, None), store')
           | ((timeouts, Some exn), store') \<Rightarrow>
               ((yielded_before_rate render params disk @ timeouts, Some exn), store'))
      | _ \<Rightarrow> (([], None), value_store))"



subsection \<open>Vocabulary of the theorems\<close>

text \<open>
  An emitted item belongs to an attribute by its label (a result's summary starts with
  the label and a colon) or by its metric name.
\<close>

definition has_label :: "string \<Rightarrow> emitted \<Rightarrow> bool" where
  "has_label label x = (case x of Result _ summary \<Rightarrow> prefix (label @ '': '') summary | Metric _ _ \<Rightarrow> False)"

definition has_metric :: "string \<Rightarrow> emitted \<Rightarrow> bool" where
  "has_metric metric_name x = (case x of Result _ _ \<Rightarrow> False | Metric n _ \<Rightarrow> n = metric_name)"

definition emitted_under :: "string \<Rightarrow> string \<Rightarrow> emitted \<Rightarrow> bool" where
  "emitted_under label metric_name x = (has_label label x \<or> has_metric metric_name x)"

text \<open>
  What a run of the attribute check yields, without the exception and the store.
\<close>

abbreviation emitted_by ::
  "rendering \<Rightarrow> string \<Rightarrow> AtaParams \<Rightarrow> Section \<Rightarrow> value_store \<Rightarrow> rat \<Rightarrow> emitted list" where
  "emitted_by render item params sec store now \<equiv>
     fst (fst (check_smart_ata' render item params sec store now))"

text \<open>
  The rate-based check returns, rather than ending the run with \<open>GetRateError\<close>, when the
  disk has no attribute 188 or the store holds a sample for it that is older than the
  current timestamp (\<open>rate_returns_iff\<close> below).
\<close>

definition rate_returns :: "ATAAll \<Rightarrow> value_store \<Rightarrow> rat \<Rightarrow> bool" where
  "rate_returns disk s now =
     (case by_id disk 188 of
        None \<Rightarrow> True
      | Some _ \<Rightarrow> (case s ''cmd_timeout'' of None \<Rightarrow> False | Some (t0, _) \<Rightarrow> t0 < now))"

text \<open>
  The baseline discovery records for a disk, in the words of the specification: the
  identity key and, for each of the eight tracked IDs, the raw value of the attribute if
  the disk has it, else nothing.
\<close>

definition baseline_of :: "disk_key \<Rightarrow> ATAAll \<Rightarrow> AtaParams" where
  "baseline_of k a =
     \<lparr>key = k,
      id_5 = map_option (\<lambda>e. raw_value (attr_raw e)) (by_id a 5),
      id_10 = map_option (\<lambda>e. raw_value (attr_raw e)) (by_id a 10),
      id_184 = map_option (\<lambda>e. raw_value (attr_raw e)) (by_id a 184),
      id_187 = map_option (\<lambda>e. raw_value (attr_raw e)) (by_id a 187),
      id_188 = map_option (\<lambda>e. raw_value (attr_raw e)) (by_id a 188),
      id_196 = map_option (\<lambda>e. raw_value (attr_raw e)) (by_id a 196),
      id_197 = map_option (\<lambda>e. raw_value (attr_raw e)) (by_id a 197),
      id_199 = map_option (\<lambda>e. raw_value (attr_raw e)) (by_id a 199)\<rparr>"

definition exposes_attributes :: "disk \<Rightarrow> bool" where
  "exposes_attributes d =
     (case d of ATA a \<Rightarrow> ata_smart_attributes a \<noteq> None | NonATA _ \<Rightarrow> False)"

subsection \<open>Sample data\<close>

definition sample_rendering :: rendering where
  "sample_rendering =
     \<lparr>timespan = (\<lambda>seconds. str_int seconds @ '' seconds''),
      default_rendering = (\<lambda>v. str_int v @ ''.00'')\<rparr>"

definition sample_entry :: "int \<Rightarrow> string \<Rightarrow> int \<Rightarrow> int \<Rightarrow> int \<Rightarrow> ATATableEntry" where
  "sample_entry i n v t r =
     \<lparr>attr_id = i, attr_name = n, attr_value = v, attr_thresh = t,
      attr_raw = \<lparr>raw_value = r\<rparr>\<rparr>"

definition sample_disk :: ATAAll where
  "sample_disk =
     \<lparr>device = \<lparr>device_name = ''/dev/sda''\<rparr>,
      model_name = ''ST1000'',
      serial_number = ''Z1D0'',
      ata_smart_attributes =
        Some [sample_entry 5 ''Reallocated_Sector_Ct'' 100 10 0,
              sample_entry 188 ''Command_Timeout'' 100 0 101,
              sample_entry 196 ''Reallocated_Event_Count'' 100 10 7,
              sample_entry 199 ''UDMA_CRC_Error_Count'' 200 0 3],
      temperature = None\<rparr>"

definition sample_key :: disk_key where
  "sample_key = (''ST1000'', ''Z1D0'')"

definition quiet_disk :: ATAAll where
  "quiet_disk =
     \<lparr>device = \<lparr>device_name = ''/dev/sdb''\<rparr>,
      model_name = ''WD40'',
      serial_number = ''K7'',
      ata_smart_attributes =
        Some [sample_entry 188 ''Command_Timeout'' 100 0 50,
              sample_entry 196 ''Reallocated_Event_Count'' 9 10 0,
              sample_entry 199 ''CRC_Error_Count'' 200 0 4],
      temperature = Some \<lparr>current = 31\<rparr>\<rparr>"

definition quiet_key :: disk_key where
  "quiet_key = (''WD40'', ''K7'')"

definition bare_disk :: ATAAll where
  "bare_disk =
     \<lparr>device = \<lparr>device_name = ''/dev/sdc''\<rparr>,
      model_name = ''SSD2'',
      serial_number = ''Q9'',
      ata_smart_attributes = None,
      temperature = None\<rparr>"

definition bare_key :: disk_key where
  "bare_key = (''SSD2'', ''Q9'')"

definition nvme_key :: disk_key where
  "nvme_key = (''KXG50'', ''77A'')"

definition sample_section :: Section where
  "sample_section =
     \<lparr>devices = [(nvme_key, NonATA ''/dev/nvme0''), (sample_key, ATA sample_disk),
                 (quiet_key, ATA quiet_disk), (bare_key, ATA bare_disk)]\<rparr>"

definition sample_params :: AtaParams where
  "sample_params =
     \<lparr>key = sample_key, id_5 = Some 0, id_10 = None, id_184 = None, id_187 = None,
      id_188 = Some 0, id_196 = Some 0, id_197 = None, id_199 = Some 3\<rparr>"

definition primed_store :: value_store where
  "primed_store = [''cmd_timeout'' \<mapsto> (0, 0)]"

definition quiet_params :: AtaParams where
  "quiet_params =
     \<lparr>key = quiet_key, id_5 = None, id_10 = None, id_184 = None, id_187 = None,
      id_188 = Some 50, id_196 = Some 0, id_197 = None, id_199 = Some 4\<rparr>"

definition sample_get_item :: "disk \<Rightarrow> string \<Rightarrow> string" where
  "sample_get_item d t = (case d of ATA a \<Rightarrow> device_name (device a) | NonATA n \<Rightarrow> n)"

definition sample_check_temperature ::
  "int \<Rightarrow> DiscoveredParams \<Rightarrow> string \<Rightarrow> value_store \<Rightarrow> CheckResult \<times> value_store" where
  "sample_check_temperature reading params unique_name value_store =
     (([Result OK (''Temperature: '' @ str_int reading), Metric ''temp'' reading], None),
      value_store)"




section \<open>Theorems\<close>

subsection \<open>Rendered integers\<close>

lemma str_int_42: "str_int 42 = ''42'' \<and> str_int (- 7) = ''-7'' \<and> str_int 0 = ''0''"
  by (simp add: str_int_def str_nat.simps)

lemma str_int_samples:
  "str_int 0 = ''0''" "str_int 3 = ''3''" "str_int 7 = ''7''" "str_int 50 = ''50''"
  "str_int 101 = ''101''"
  by (simp_all add: str_int_def str_nat.simps)

lemma str_int_100: "str_int 100 = ''100''"
  by (simp add: str_int_def str_nat.simps)

lemma str_int_more:
  "str_int 4 = ''4''" "str_int 9 = ''9''" "str_int 10 = ''10''" "str_int 31 = ''31''"
  by (simp_all add: str_int_def str_nat.simps)


subsection \<open>Structure of a check run\<close>

lemmas yielded_before_defs =
  yielded_before_rate_def yielded_for_5_def yielded_for_9_def yielded_for_10_def
  yielded_for_12_def yielded_for_184_def yielded_for_187_def

lemma lookup_cases:
  obtains (absent) "map_of (devices section) k = None"
  | (not_ata) n where "map_of (devices section) k = Some (NonATA n)"
  | (resolved) disk where "map_of (devices section) k = Some (ATA disk)"
  by (metis disk.exhaust option.exhaust)

lemma check_smart_ata'_absent:
  "map_of (devices section) (key params) = None \<Longrightarrow>
   check_smart_ata' render item params section value_store now = (([], None), value_store)"
  by (simp add: check_smart_ata'_def)

lemma check_smart_ata'_not_ata:
  "map_of (devices section) (key params) = Some (NonATA n) \<Longrightarrow>
   check_smart_ata' render item params section value_store now = (([], None), value_store)"
  by (simp add: check_smart_ata'_def)

lemma check_smart_ata'_resolved:
  assumes "map_of (devices section) (key params) = Some (ATA disk)"
  shows "check_smart_ata' render item params section value_store now =
     ((yielded_before_rate render params disk
       @ fst (fst (check_command_timeout disk value_store now))
       @ (if snd (fst (check_command_timeout disk value_store now)) = None
          then yielded_after_rate render params disk else []),
       snd (fst (check_command_timeout disk value_store now))),
      snd (check_command_timeout disk value_store now))"
proof -
  obtain timeouts exn store' where
    c: "check_command_timeout disk value_store now = ((timeouts, exn), store')"
    by (metis prod.exhaust)
  show ?thesis
    using assms c
    by (cases exn) (simp_all add: check_smart_ata'_def)
qed

subsection \<open>The rate helper and the rate-based check\<close>

lemma get_rate_store: "snd (get_rate s k t v) = s(k \<mapsto> (t, v))"
  by (simp add: get_rate_def Let_def split: option.splits prod.splits)

lemma get_rate_first: "s k = None \<Longrightarrow> get_rate s k t v = (Inl GetRateError, s(k \<mapsto> (t, v)))"
  by (simp add: get_rate_def)

lemma get_rate_no_time: 
  "s k = Some (t0, v0) \<Longrightarrow> t \<le> t0 \<Longrightarrow> get_rate s k t v = (Inl GetRateError, s(k \<mapsto> (t, v)))"
  by (simp add: get_rate_def)

lemma get_rate_rate: 
  "s k = Some (t0, v0) \<Longrightarrow> t0 < t \<Longrightarrow> get_rate s k t v = (Inr ((v - v0) / (t - t0)), s(k \<mapsto> (t, v)))"
  by (simp add: get_rate_def py_div_def)

lemma get_rate_no_zero_division: "fst (get_rate s k t v) \<noteq> Inl ZeroDivisionError"
  by (simp add: get_rate_def Let_def py_div_def split: option.splits prod.splits)

lemma check_command_timeout_absent:
  "by_id disk 188 = None \<Longrightarrow> check_command_timeout disk s now = (([], None), s)"
  by (simp add: check_command_timeout_def)

lemma check_command_timeout_no_rate:
  assumes "by_id disk 188 = Some c"
    and "s ''cmd_timeout'' = None \<or> (\<exists>t0 v0. s ''cmd_timeout'' = Some (t0, v0) \<and> now \<le> t0)"
  shows "check_command_timeout disk s now =
    (([], Some GetRateError), s(''cmd_timeout'' \<mapsto> (now, of_int (raw_value (attr_raw c)))))"
  using assms by (auto simp add: check_command_timeout_def get_rate_first get_rate_no_time)

lemma check_command_timeout_rate:
  assumes "by_id disk 188 = Some c" and "s ''cmd_timeout'' = Some (t0, v0)" and "t0 < now"
  shows "check_command_timeout disk s now =
    (((if (of_int (raw_value (attr_raw c)) - v0) / (now - t0) \<ge> 100 / 3600
       then [Result CRIT (''Command Timeout Counter: '' @ str_int (raw_value (attr_raw c))
                @ '' (counter increased more than 100 counts / h (!!))'')]
       else [Result OK (''Command Timeout Counter: '' @ str_int (raw_value (attr_raw c)))])
      @ [Metric ''harddrive_cmd_timeouts'' (raw_value (attr_raw c))], None),
     s(''cmd_timeout'' \<mapsto> (now, of_int (raw_value (attr_raw c)))))"
  using assms
  by (simp add: check_command_timeout_def get_rate_rate MAX_COMMAND_TIMEOUTS_PER_HOUR_def
      str_int_100)

lemma check_command_timeout_crit:
  assumes "by_id disk 188 = Some c" and "s ''cmd_timeout'' = Some (t0, v0)" and "t0 < now"
    and "100 / 3600 \<le> (of_int (raw_value (attr_raw c)) - v0) / (now - t0)"
  shows "check_command_timeout disk s now =
    (([Result CRIT (''Command Timeout Counter: '' @ str_int (raw_value (attr_raw c))
         @ '' (counter increased more than 100 counts / h (!!))''),
       Metric ''harddrive_cmd_timeouts'' (raw_value (attr_raw c))], None),
     s(''cmd_timeout'' \<mapsto> (now, of_int (raw_value (attr_raw c)))))"
  using check_command_timeout_rate [of disk c s t0 v0 now, OF assms(1-3)]
  by (simp only: assms(4) if_True append.simps)

lemma check_command_timeout_ok:
  assumes "by_id disk 188 = Some c" and "s ''cmd_timeout'' = Some (t0, v0)" and "t0 < now"
    and "(of_int (raw_value (attr_raw c)) - v0) / (now - t0) < 100 / 3600"
  shows "check_command_timeout disk s now =
    (([Result OK (''Command Timeout Counter: '' @ str_int (raw_value (attr_raw c))),
       Metric ''harddrive_cmd_timeouts'' (raw_value (attr_raw c))], None),
     s(''cmd_timeout'' \<mapsto> (now, of_int (raw_value (attr_raw c)))))"
proof -
  have "\<not> 100 / 3600 \<le> (of_int (raw_value (attr_raw c)) - v0) / (now - t0)"
    using assms(4) by (simp only: not_le)
  then show ?thesis
    using check_command_timeout_rate [of disk c s t0 v0 now, OF assms(1-3)]
    by (simp only: if_False append.simps)
qed

lemma check_command_timeout_cases:
  obtains (absent) "by_id disk 188 = None" "check_command_timeout disk s now = (([], None), s)"
  | (no_rate) s' where "check_command_timeout disk s now = (([], Some GetRateError), s')"
  | (rate) st rest raw s' where
      "check_command_timeout disk s now =
         (([Result st (''Command Timeout Counter: '' @ rest),
            Metric ''harddrive_cmd_timeouts'' raw], None), s')"
proof (cases "by_id disk 188")
  case None
  then show ?thesis
    using absent check_command_timeout_absent by blast
next
  case (Some c)
  show ?thesis
  proof (cases "s ''cmd_timeout''")
    case None
    then show ?thesis
      using \<open>by_id disk 188 = Some c\<close> check_command_timeout_no_rate [of disk c s now] no_rate
      by blast
  next
    case (Some p)
    obtain t0 v0 where p: "p = (t0, v0)" by (cases p)
    show ?thesis
    proof (cases "t0 < now")
      case True
      show ?thesis
      proof (cases "100 / 3600 \<le> (of_int (raw_value (attr_raw c)) - v0) / (now - t0)")
        case True
        show ?thesis
          by (rule rate, rule check_command_timeout_crit [of disk c s t0 v0 now])
            (use \<open>by_id disk 188 = Some c\<close> Some p \<open>t0 < now\<close> True in simp_all)
      next
        case False
        show ?thesis
          by (rule rate, rule check_command_timeout_ok [of disk c s t0 v0 now])
            (use \<open>by_id disk 188 = Some c\<close> Some p \<open>t0 < now\<close> False in simp_all)
      qed
    next
      case False
      then show ?thesis
        using \<open>by_id disk 188 = Some c\<close> Some p check_command_timeout_no_rate [of disk c s now]
          no_rate
        by (metis not_le_imp_less not_less)
    qed
  qed
qed

lemma check_command_timeout_store:
  "snd (check_command_timeout disk s now) =
     (case by_id disk 188 of None \<Rightarrow> s
      | Some c \<Rightarrow> s(''cmd_timeout'' \<mapsto> (now, of_int (raw_value (attr_raw c)))))"
proof (cases "by_id disk 188")
  case None
  then show ?thesis by (simp add: check_command_timeout_def)
next
  case (Some c)
  obtain r s' where g: "get_rate s ''cmd_timeout'' now (of_int (raw_value (attr_raw c))) = (r, s')"
    by (metis prod.exhaust)
  have "s' = s(''cmd_timeout'' \<mapsto> (now, of_int (raw_value (attr_raw c))))"
    using get_rate_store [of s "''cmd_timeout''" now "of_int (raw_value (attr_raw c))"] g by simp
  then show ?thesis using Some g by (cases r) (simp_all add: check_command_timeout_def)
qed

lemma check_command_timeout_error:
  "snd (fst (check_command_timeout disk s now)) = None
   \<or> snd (fst (check_command_timeout disk s now)) = Some GetRateError"
proof (cases "by_id disk 188")
  case None
  then show ?thesis by (simp add: check_command_timeout_def)
next
  case (Some c)
  show ?thesis
  proof (cases "s ''cmd_timeout''")
    case None
    then show ?thesis using Some check_command_timeout_no_rate [of disk c s now] by simp
  next
    case (Some p)
    obtain t0 v0 where p: "p = (t0, v0)" by (cases p)
    show ?thesis
    proof (cases "t0 < now")
      case True
      then show ?thesis
        using \<open>by_id disk 188 = Some c\<close> Some p check_command_timeout_rate [of disk c s t0 v0 now]
        by simp
    next
      case False
      then show ?thesis
        using \<open>by_id disk 188 = Some c\<close> Some p check_command_timeout_no_rate [of disk c s now]
        by simp
    qed
  qed
qed

lemma check_command_timeout_depends:
  assumes "s1 ''cmd_timeout'' = s2 ''cmd_timeout''"
  shows "fst (check_command_timeout disk s1 now) = fst (check_command_timeout disk s2 now)"
proof (cases "by_id disk 188")
  case None
  then show ?thesis by (simp add: check_command_timeout_def)
next
  case (Some c)
  obtain r1 t1 where g1:
    "get_rate s1 ''cmd_timeout'' now (of_int (raw_value (attr_raw c))) = (r1, t1)"
    by (metis prod.exhaust)
  obtain r2 t2 where g2:
    "get_rate s2 ''cmd_timeout'' now (of_int (raw_value (attr_raw c))) = (r2, t2)"
    by (metis prod.exhaust)
  have "fst (get_rate s1 ''cmd_timeout'' now v) = fst (get_rate s2 ''cmd_timeout'' now v)" for v
    using assms by (simp add: get_rate_def Let_def split: option.splits prod.splits)
  then have "r2 = r1"
    using g1 g2 by (metis fst_conv)
  with g2 have g2': "get_rate s2 ''cmd_timeout'' now (of_int (raw_value (attr_raw c))) = (r1, t2)"
    by simp
  show ?thesis
    using Some g1 g2' by (cases r1) (simp_all add: check_command_timeout_def)
qed

lemma rate_returns_iff:
  "rate_returns disk s now \<longleftrightarrow> snd (fst (check_command_timeout disk s now)) = None"
proof (cases "by_id disk 188")
  case None
  then show ?thesis
    by (simp add: rate_returns_def check_command_timeout_absent)
next
  case (Some c)
  show ?thesis
  proof (cases "s ''cmd_timeout''")
    case None
    then show ?thesis
      using \<open>by_id disk 188 = Some c\<close> check_command_timeout_no_rate [of disk c s now]
      by (simp add: rate_returns_def)
  next
    case (Some p)
    obtain t0 v0 where p: "p = (t0, v0)" by (cases p)
    show ?thesis
    proof (cases "t0 < now")
      case True
      then show ?thesis
        using \<open>by_id disk 188 = Some c\<close> Some p check_command_timeout_rate [of disk c s t0 v0 now]
        by (simp add: rate_returns_def)
    next
      case False
      then show ?thesis
        using \<open>by_id disk 188 = Some c\<close> Some p check_command_timeout_no_rate [of disk c s now]
        by (simp add: rate_returns_def)
    qed
  qed
qed

subsection \<open>Completed and aborted runs\<close>

lemma check_smart_ata'_completed:
  assumes "map_of (devices sec) (key params) = Some (ATA disk)" and "rate_returns disk s now"
  shows "fst (check_smart_ata' render item params sec s now) =
    (yielded_before_rate render params disk @ fst (fst (check_command_timeout disk s now))
     @ yielded_for_196 render params disk @ yielded_for_197 params disk
     @ yielded_for_199 params disk, None)"
  using assms(2) [unfolded rate_returns_iff]
  by (simp add: check_smart_ata'_resolved [OF assms(1)] yielded_after_rate_def)

lemma check_smart_ata'_aborted:
  assumes "map_of (devices sec) (key params) = Some (ATA disk)" and "\<not> rate_returns disk s now"
  shows "fst (check_smart_ata' render item params sec s now) =
    (yielded_before_rate render params disk, Some GetRateError)"
proof -
  have "snd (fst (check_command_timeout disk s now)) \<noteq> None"
    using assms(2) by (simp add: rate_returns_iff)
  then obtain s' where "check_command_timeout disk s now = (([], Some GetRateError), s')"
    by (cases rule: check_command_timeout_cases [of disk s now]) simp_all
  then show ?thesis
    by (simp add: check_smart_ata'_resolved [OF assms(1)])
qed

lemma check_smart_ata'_store:
  "snd (check_smart_ata' render item params sec s now) =
     (case map_of (devices sec) (key params) of
        Some (ATA disk) \<Rightarrow>
          (case by_id disk 188 of
             None \<Rightarrow> s
           | Some c \<Rightarrow> s(''cmd_timeout'' \<mapsto> (now, of_int (raw_value (attr_raw c)))))
      | _ \<Rightarrow> s)"
proof (cases rule: lookup_cases [of sec "key params"])
  case absent
  then show ?thesis by (simp add: check_smart_ata'_absent)
next
  case (not_ata n)
  then show ?thesis by (simp add: check_smart_ata'_not_ata)
next
  case (resolved disk)
  then show ?thesis
    by (simp add: check_smart_ata'_resolved check_command_timeout_store)
qed

lemma check_smart_ata'_error:
  "snd (fst (check_smart_ata' render item params sec s now)) = None
   \<or> snd (fst (check_smart_ata' render item params sec s now)) = Some GetRateError"
proof (cases rule: lookup_cases [of sec "key params"])
  case absent
  then show ?thesis by (simp add: check_smart_ata'_absent)
next
  case (not_ata n)
  then show ?thesis by (simp add: check_smart_ata'_not_ata)
next
  case (resolved disk)
  then show ?thesis
    using check_command_timeout_error [of disk s now] by (simp add: check_smart_ata'_resolved)
qed

lemma check_smart_ata'_depends:
  assumes "s1 ''cmd_timeout'' = s2 ''cmd_timeout''"
  shows "fst (check_smart_ata' render item1 params sec s1 now) =
    fst (check_smart_ata' render item2 params sec s2 now)"
proof (cases rule: lookup_cases [of sec "key params"])
  case absent
  then show ?thesis by (simp add: check_smart_ata'_absent)
next
  case (not_ata n)
  then show ?thesis by (simp add: check_smart_ata'_not_ata)
next
  case (resolved disk)
  then show ?thesis
    using check_command_timeout_depends [of s1 s2 disk now] assms
    by (simp add: check_smart_ata'_resolved)
qed

lemma check_smart_ata'_replay:
  assumes "map_of (devices sec) (key params) = Some (ATA disk)" and "by_id disk 188 = Some c"
  shows "fst (check_smart_ata' render item params sec
               (snd (check_smart_ata' render item params sec s now)) now) =
           (yielded_before_rate render params disk, Some GetRateError)"
proof -
  let ?s' = "s(''cmd_timeout'' \<mapsto> (now, of_int (raw_value (attr_raw c))))"
  have s': "snd (check_smart_ata' render item params sec s now) = ?s'"
    using assms by (simp add: check_smart_ata'_store)
  have "check_command_timeout disk ?s' now = (([], Some GetRateError), ?s')"
    using check_command_timeout_no_rate [of disk c ?s' now] assms(2) by simp
  then show ?thesis
    using assms(1) s' by (simp add: check_smart_ata'_resolved)
qed

lemma check_smart_ata'_replay_store:
  "snd (check_smart_ata' render item params sec
          (snd (check_smart_ata' render item params sec s now)) now) =
   snd (check_smart_ata' render item params sec s now)"
  by (simp add: check_smart_ata'_store split: option.splits disk.splits)

lemma before_id_188:
  "yielded_before_rate render (params\<lparr>id_188 := b\<rparr>) disk = yielded_before_rate render params disk"
  by (simp add: yielded_before_defs cong: option.case_cong)

lemma after_id_188:
  "yielded_after_rate render (params\<lparr>id_188 := b\<rparr>) disk = yielded_after_rate render params disk"
  by (simp add: yielded_after_rate_def yielded_for_196_def yielded_for_197_def
      yielded_for_199_def cong: option.case_cong if_cong)

lemma yielded_for_196_present:
  assumes "by_id disk 196 = Some e"
  shows "yielded_for_196 render params disk =
    [Result (case id_196 params of
               None \<Rightarrow> OK
             | Some B \<Rightarrow> if B < raw_value (attr_raw e) then CRIT else OK)
       (''Reallocated events: '' @ str_int (raw_value (attr_raw e))
        @ (case id_196 params of
             None \<Rightarrow> []
           | Some B \<Rightarrow>
               if B < raw_value (attr_raw e)
               then '' (during discovery: '' @ str_int B @ '') (!!)'' else [])),
     Metric ''harddrive_reallocated_events'' (raw_value (attr_raw e)),
     Result (if attr_value e < attr_thresh e then CRIT else OK)
       (''Normalized value: '' @ default_rendering render (attr_value e)
        @ (if attr_value e < attr_thresh e
           then '' (warn/crit below '' @ default_rendering render (attr_thresh e) @ ''/''
                  @ default_rendering render (attr_thresh e) @ '')''
           else []))]"
  using assms
  by (simp add: yielded_for_196_def check_against_discovery_def check_levels_def
      split: option.split)

subsection \<open>What is emitted under a label or a metric name\<close>

lemma emitted_under_simps:
  "emitted_under L M (Metric n v) = (n = M)"
  "emitted_under L M (Result st summary) = has_label L (Result st summary)"
  by (simp_all add: emitted_under_def has_label_def has_metric_def)

lemma prefix_append_comparable:
  "prefix xs (ys @ zs) \<Longrightarrow> prefix xs ys \<or> prefix ys xs"
  by (auto simp add: prefix_append)

lemma has_label_other:
  assumes "\<not> prefix (L @ '': '') (l @ '': '')" and "\<not> prefix (l @ '': '') (L @ '': '')"
  shows "\<not> has_label L (Result st (l @ '': '' @ rest))"
proof
  assume "has_label L (Result st (l @ '': '' @ rest))"
  then have "prefix (L @ '': '') ((l @ '': '') @ rest)"
    by (simp add: has_label_def)
  then have "prefix (L @ '': '') (l @ '': '') \<or> prefix (l @ '': '') (L @ '': '')"
    by (rule prefix_append_comparable)
  then show False
    using assms by blast
qed

lemma check_against_discovery_shape:
  "\<exists>st rest. check_against_discovery v d l m = [Result st (l @ '': '' @ rest), Metric m v]"
  by (cases d) (auto simp add: check_against_discovery_def)

lemma check_levels_shape:
  "\<exists>st rest. check_levels v lv l r mo =
     Result st (l @ '': '' @ rest) # (case mo of None \<Rightarrow> [] | Some m \<Rightarrow> [Metric m v])"
  by (cases lv) (auto simp add: check_levels_def)

lemma filter_check_against_discovery_other:
  assumes "\<not> prefix (L @ '': '') (l @ '': '')" and "\<not> prefix (l @ '': '') (L @ '': '')"
    and "m \<noteq> M"
  shows "filter (emitted_under L M) (check_against_discovery v d l m) = []"
proof -
  obtain st rest where
    "check_against_discovery v d l m = [Result st (l @ '': '' @ rest), Metric m v]"
    using check_against_discovery_shape by blast
  then show ?thesis
    using has_label_other [OF assms(1,2)] assms(3)
    by (simp add: emitted_under_def has_metric_def has_label_def)
qed

lemma filter_check_against_discovery_same:
  "filter (emitted_under l m) (check_against_discovery v d l m) = check_against_discovery v d l m"
proof -
  obtain st rest where
    "check_against_discovery v d l m = [Result st (l @ '': '' @ rest), Metric m v]"
    using check_against_discovery_shape by blast
  then show ?thesis
    by (simp add: emitted_under_def has_metric_def has_label_def)
qed

lemma filter_check_levels_other:
  assumes "\<not> prefix (L @ '': '') (l @ '': '')" and "\<not> prefix (l @ '': '') (L @ '': '')"
    and "mo \<noteq> Some M"
  shows "filter (emitted_under L M) (check_levels v lv l r mo) = []"
proof -
  obtain st rest where
    "check_levels v lv l r mo =
       Result st (l @ '': '' @ rest) # (case mo of None \<Rightarrow> [] | Some m \<Rightarrow> [Metric m v])"
    using check_levels_shape by blast
  then show ?thesis
    using has_label_other [OF assms(1,2)] assms(3)
    by (cases mo) (simp_all add: emitted_under_def has_metric_def has_label_def)
qed

lemma filter_timeouts_other:
  assumes "\<not> prefix (L @ '': '') ''Command Timeout Counter: ''"
    and "\<not> prefix ''Command Timeout Counter: '' (L @ '': '')"
    and "M \<noteq> ''harddrive_cmd_timeouts''"
  shows "filter (emitted_under L M) (fst (fst (check_command_timeout disk s now))) = []"
proof (cases rule: check_command_timeout_cases [of disk s now])
  case absent
  then show ?thesis by simp
next
  case (no_rate s')
  then show ?thesis by simp
next
  case (rate st rest raw s')
  have "\<not> has_label L (Result st (''Command Timeout Counter'' @ '': '' @ rest))"
    using assms(1,2) by (intro has_label_other) simp_all
  then show ?thesis
    using rate assms(3) by (simp add: emitted_under_simps)
qed

lemma filter_before_udma:
  "filter (emitted_under ''UDMA CRC errors'' ''harddrive_udma_crc_errors'')
     (yielded_before_rate render params disk) = []"
  by (simp add: yielded_before_defs filter_check_against_discovery_other
      filter_check_levels_other split: option.split)

lemma filter_before_crc:
  "filter (emitted_under ''CRC errors'' ''harddrive_crc_errors'')
     (yielded_before_rate render params disk) = []"
  by (simp add: yielded_before_defs filter_check_against_discovery_other
      filter_check_levels_other split: option.split)

lemma filter_timeouts_crc:
  "filter (emitted_under ''UDMA CRC errors'' ''harddrive_udma_crc_errors'')
     (fst (fst (check_command_timeout disk s now))) = []"
  "filter (emitted_under ''CRC errors'' ''harddrive_crc_errors'')
     (fst (fst (check_command_timeout disk s now))) = []"
  by (simp_all add: filter_timeouts_other)

lemma filter_196_crc:
  "filter (emitted_under ''UDMA CRC errors'' ''harddrive_udma_crc_errors'')
     (yielded_for_196 render params disk) = []"
  "filter (emitted_under ''CRC errors'' ''harddrive_crc_errors'')
     (yielded_for_196 render params disk) = []"
  by (simp_all add: yielded_for_196_def filter_check_against_discovery_other
      filter_check_levels_other split: option.split)

lemma filter_197_crc:
  "filter (emitted_under ''UDMA CRC errors'' ''harddrive_udma_crc_errors'')
     (yielded_for_197 params disk) = []"
  "filter (emitted_under ''CRC errors'' ''harddrive_crc_errors'')
     (yielded_for_197 params disk) = []"
  by (simp_all add: yielded_for_197_def filter_check_against_discovery_other
      split: option.split)

lemma filter_199_udma:
  assumes "by_id disk 199 = Some e" and "attr_name e = ''UDMA_CRC_Error_Count''"
  shows "filter (emitted_under ''UDMA CRC errors'' ''harddrive_udma_crc_errors'')
       (yielded_for_199 params disk) =
     check_against_discovery (raw_value (attr_raw e)) (id_199 params)
       ''UDMA CRC errors'' ''harddrive_udma_crc_errors''"
    and "filter (emitted_under ''CRC errors'' ''harddrive_crc_errors'')
       (yielded_for_199 params disk) = []"
  using assms
  by (simp_all add: yielded_for_199_def filter_check_against_discovery_same
      filter_check_against_discovery_other)

lemma filter_199_generic:
  assumes "by_id disk 199 = Some e" and "attr_name e \<noteq> ''UDMA_CRC_Error_Count''"
  shows "filter (emitted_under ''CRC errors'' ''harddrive_crc_errors'')
       (yielded_for_199 params disk) =
     check_against_discovery (raw_value (attr_raw e)) (id_199 params)
       ''CRC errors'' ''harddrive_crc_errors''"
    and "filter (emitted_under ''UDMA CRC errors'' ''harddrive_udma_crc_errors'')
       (yielded_for_199 params disk) = []"
  using assms
  by (simp_all add: yielded_for_199_def filter_check_against_discovery_same
      filter_check_against_discovery_other)

lemma filter_199_never_both:
  "filter (emitted_under ''UDMA CRC errors'' ''harddrive_udma_crc_errors'')
       (yielded_for_199 params disk) = []
   \<or> filter (emitted_under ''CRC errors'' ''harddrive_crc_errors'')
       (yielded_for_199 params disk) = []"
proof (cases "by_id disk 199")
  case None
  then show ?thesis by (simp add: yielded_for_199_def)
next
  case (Some e)
  then show ?thesis
    using filter_199_udma(2) [of disk e params] filter_199_generic(2) [of disk e params]
    by blast
qed

lemma filter_emitted_crc:
  assumes "map_of (devices sec) (key params) = Some (ATA disk)" and "rate_returns disk s now"
  shows "filter (emitted_under ''UDMA CRC errors'' ''harddrive_udma_crc_errors'')
       (emitted_by render item params sec s now) =
     filter (emitted_under ''UDMA CRC errors'' ''harddrive_udma_crc_errors'')
       (yielded_for_199 params disk)"
    and "filter (emitted_under ''CRC errors'' ''harddrive_crc_errors'')
       (emitted_by render item params sec s now) =
     filter (emitted_under ''CRC errors'' ''harddrive_crc_errors'')
       (yielded_for_199 params disk)"
  by (simp_all add: check_smart_ata'_completed [OF assms] filter_before_udma filter_before_crc
      filter_timeouts_crc filter_196_crc filter_197_crc)

lemma filter_timeouts_same:
  "filter (emitted_under ''Command Timeout Counter'' ''harddrive_cmd_timeouts'')
     (fst (fst (check_command_timeout disk s now))) =
   fst (fst (check_command_timeout disk s now))"
proof (cases rule: check_command_timeout_cases [of disk s now])
  case absent
  then show ?thesis by simp
next
  case (no_rate s')
  then show ?thesis by simp
next
  case (rate st rest raw s')
  then show ?thesis
    by (simp add: emitted_under_simps has_label_def)
qed

lemma filter_before_timeouts:
  "filter (emitted_under ''Command Timeout Counter'' ''harddrive_cmd_timeouts'')
     (yielded_before_rate render params disk) = []"
  by (simp add: yielded_before_defs filter_check_against_discovery_other
      filter_check_levels_other split: option.split)

lemma filter_after_timeouts:
  "filter (emitted_under ''Command Timeout Counter'' ''harddrive_cmd_timeouts'')
     (yielded_after_rate render params disk) = []"
  by (simp add: yielded_after_rate_def yielded_for_196_def yielded_for_197_def
      yielded_for_199_def filter_check_against_discovery_other filter_check_levels_other
      split: option.split)

subsection \<open>The discovery loop\<close>

lemma case_option_map: "(case x of None \<Rightarrow> None | Some e \<Rightarrow> Some (f e)) = map_option f x"
  by (cases x) simp_all

lemma exposes_attributes_simps:
  "exposes_attributes (ATA a) = (ata_smart_attributes a \<noteq> None)"
  "exposes_attributes (NonATA n) = False"
  by (simp_all add: exposes_attributes_def)

lemma discover_smart_ata_loop_ata:
  "discover_smart_ata_loop get_item params ((k, ATA a) # ds) =
     (if ata_smart_attributes a \<noteq> None
      then [Service (get_item (ATA a) (fst (item_type params))) (baseline_of k a)]
      else [])
     @ discover_smart_ata_loop get_item params ds"
  by (simp add: baseline_of_def case_option_map)

lemma discover_smart_ata_loop_non_ata:
  "discover_smart_ata_loop get_item params ((k, NonATA n) # ds) =
     discover_smart_ata_loop get_item params ds"
  by simp

lemma discover_smart_ata_loop_eq:
  "discover_smart_ata_loop get_item params ds =
     map (\<lambda>(k, d). Service (get_item d (fst (item_type params))) (baseline_of k (ata d)))
       (filter (\<lambda>(k, d). exposes_attributes d) ds)"
proof (induction ds)
  case Nil
  show ?case by simp
next
  case (Cons p ds)
  obtain k d where p: "p = (k, d)" by (cases p)
  show ?case
  proof (cases d)
    case (ATA a)
    then show ?thesis
      using Cons p
      by (simp add: discover_smart_ata_loop_ata exposes_attributes_simps
          del: discover_smart_ata_loop.simps)
  next
    case (NonATA n)
    then show ?thesis
      using Cons p
      by (simp add: discover_smart_ata_loop_non_ata exposes_attributes_simps
          del: discover_smart_ata_loop.simps)
  qed
qed

subsection \<open>The sample data\<close>

lemma sample_lookup:
  "map_of (devices sample_section) (key sample_params) = Some (ATA sample_disk)"
  by (simp add: sample_section_def sample_params_def sample_key_def nvme_key_def)

lemma quiet_lookup:
  "map_of (devices sample_section) (key quiet_params) = Some (ATA quiet_disk)"
  by (simp add: sample_section_def quiet_params_def sample_key_def nvme_key_def quiet_key_def)

lemma nvme_lookup:
  "map_of (devices sample_section) nvme_key = Some (NonATA ''/dev/nvme0'')"
  by (simp add: sample_section_def)

lemma missing_lookup:
  "map_of (devices sample_section) (''gone'', ''disk'') = None"
  by (simp add: sample_section_def nvme_key_def sample_key_def quiet_key_def bare_key_def)

lemma sample_by_id:
  "by_id sample_disk 5 = Some (sample_entry 5 ''Reallocated_Sector_Ct'' 100 10 0)"
  "by_id sample_disk 188 = Some (sample_entry 188 ''Command_Timeout'' 100 0 101)"
  "by_id sample_disk 196 = Some (sample_entry 196 ''Reallocated_Event_Count'' 100 10 7)"
  "by_id sample_disk 199 = Some (sample_entry 199 ''UDMA_CRC_Error_Count'' 200 0 3)"
  "by_id sample_disk 9 = None" "by_id sample_disk 10 = None" "by_id sample_disk 12 = None"
  "by_id sample_disk 184 = None" "by_id sample_disk 187 = None" "by_id sample_disk 197 = None"
  by (simp_all add: by_id_def sample_disk_def sample_entry_def)


lemma quiet_by_id:
  "by_id quiet_disk 188 = Some (sample_entry 188 ''Command_Timeout'' 100 0 50)"
  "by_id quiet_disk 196 = Some (sample_entry 196 ''Reallocated_Event_Count'' 9 10 0)"
  "by_id quiet_disk 199 = Some (sample_entry 199 ''CRC_Error_Count'' 200 0 4)"
  "by_id quiet_disk 5 = None" "by_id quiet_disk 9 = None" "by_id quiet_disk 10 = None"
  "by_id quiet_disk 12 = None" "by_id quiet_disk 184 = None" "by_id quiet_disk 187 = None"
  "by_id quiet_disk 197 = None"
  by (simp_all add: by_id_def quiet_disk_def sample_entry_def)


lemma sample_temperature: "temperature sample_disk = None"
  by (simp add: sample_disk_def)

lemma sample_rate_returns: "rate_returns sample_disk primed_store 3600"
  by (simp add: rate_returns_def sample_by_id primed_store_def)

lemma quiet_rate_returns: "rate_returns quiet_disk primed_store 3600"
  by (simp add: rate_returns_def quiet_by_id primed_store_def)

lemma sample_not_rate_returns: "\<not> rate_returns sample_disk Map.empty 3600"
  by (simp add: rate_returns_def sample_by_id)

lemma sample_first_sample:
  "check_command_timeout sample_disk Map.empty 3600 =
     (([], Some GetRateError), [''cmd_timeout'' \<mapsto> (3600, 101)])"
  using check_command_timeout_no_rate
    [of sample_disk "sample_entry 188 ''Command_Timeout'' 100 0 101" Map.empty 3600]
  by (simp add: sample_by_id sample_entry_def)

lemma sample_second_sample:
  "check_command_timeout sample_disk primed_store 3600 =
     (([Result CRIT
          ''Command Timeout Counter: 101 (counter increased more than 100 counts / h (!!))'',
        Metric ''harddrive_cmd_timeouts'' 101], None),
      [''cmd_timeout'' \<mapsto> (3600, 101)])"
  using check_command_timeout_rate
    [of sample_disk "sample_entry 188 ''Command_Timeout'' 100 0 101" primed_store 0 0 3600]
  by (simp add: sample_by_id sample_entry_def primed_store_def str_int_samples)

lemma sample_before:
  "yielded_before_rate sample_rendering sample_params sample_disk =
     [Result OK ''Reallocated sectors: 0'', Metric ''harddrive_reallocated_sectors'' 0]"
  by (simp add: yielded_before_defs sample_by_id check_against_discovery_def
      sample_entry_def sample_params_def str_int_samples)

lemma sample_after:
  "yielded_after_rate sample_rendering sample_params sample_disk =
     [Result CRIT ''Reallocated events: 7 (during discovery: 0) (!!)'',
      Metric ''harddrive_reallocated_events'' 7,
      Result OK ''Normalized value: 100.00'',
      Result OK ''UDMA CRC errors: 3'',
      Metric ''harddrive_udma_crc_errors'' 3]"
  by (simp add: yielded_after_rate_def yielded_for_196_def yielded_for_197_def
      yielded_for_199_def sample_by_id check_against_discovery_def check_levels_def
      sample_entry_def sample_params_def sample_rendering_def str_int_samples str_int_100)

lemma sample_aborted_run:
  "check_smart_ata' sample_rendering ''sda'' sample_params sample_section Map.empty 3600 =
     (([Result OK ''Reallocated sectors: 0'', Metric ''harddrive_reallocated_sectors'' 0],
       Some GetRateError),
      [''cmd_timeout'' \<mapsto> (3600, 101)])"
  by (simp add: check_smart_ata'_resolved [OF sample_lookup] sample_first_sample sample_before)

lemma sample_completed_run:
  "check_smart_ata' sample_rendering ''sda'' sample_params sample_section primed_store 3600 =
     (([Result OK ''Reallocated sectors: 0'',
        Metric ''harddrive_reallocated_sectors'' 0,
        Result CRIT
          ''Command Timeout Counter: 101 (counter increased more than 100 counts / h (!!))'',
        Metric ''harddrive_cmd_timeouts'' 101,
        Result CRIT ''Reallocated events: 7 (during discovery: 0) (!!)'',
        Metric ''harddrive_reallocated_events'' 7,
        Result OK ''Normalized value: 100.00'',
        Result OK ''UDMA CRC errors: 3'',
        Metric ''harddrive_udma_crc_errors'' 3],
       None),
      [''cmd_timeout'' \<mapsto> (3600, 101)])"
  by (simp add: check_smart_ata'_resolved [OF sample_lookup] sample_second_sample
      sample_before sample_after)

lemma check_smart_ata_temp_delegates:
  "check_smart_ata_temp sample_check_temperature ''sdb'' \<lparr>key = quiet_key\<rparr> sample_section
       primed_store =
     (([Result OK ''Temperature: 31'', Metric ''temp'' 31], None), primed_store)"
  using quiet_lookup
  by (simp add: check_smart_ata_temp_def quiet_params_def quiet_disk_def
      sample_check_temperature_def str_int_def str_nat.simps)

subsection \<open>The regression rule (C1)\<close>



subsection \<open>Attribute 188 has no regression check (C2)\<close>

text \<open>
  C2. The whole outcome of the attribute check (what it yields, how it ends, the store it
  leaves) is the same whatever the baseline parameter \<open>id_188\<close> holds, a value or nothing:
  the check never reads it. Attribute 188 is evaluated by the rate-based check alone,
  which is not given the parameters: for a resolved disk, what the run emits under the
  label ``Command Timeout Counter'' or the metric \<^verbatim>\<open>harddrive_cmd_timeouts\<close> is
  exactly what the rate-based check yields.
\<close>

theorem baseline_188_is_ignored:
  "check_smart_ata' render item (params\<lparr>id_188 := b\<rparr>) sec value_store now =
     check_smart_ata' render item params sec value_store now
   \<and> (map_of (devices sec) (key params) = Some (ATA disk) \<longrightarrow>
        filter (emitted_under ''Command Timeout Counter'' ''harddrive_cmd_timeouts'')
          (emitted_by render item params sec value_store now) =
        fst (fst (check_command_timeout disk value_store now)))"
proof
  show "check_smart_ata' render item (params\<lparr>id_188 := b\<rparr>) sec value_store now =
     check_smart_ata' render item params sec value_store now"
  proof (cases rule: lookup_cases [of sec "key params"])
    case absent
    then show ?thesis by (simp add: check_smart_ata'_absent)
  next
    case (not_ata n)
    then show ?thesis by (simp add: check_smart_ata'_not_ata)
  next
    case (resolved disk)
    then show ?thesis by (simp add: check_smart_ata'_resolved before_id_188 after_id_188)
  qed
next
  show "map_of (devices sec) (key params) = Some (ATA disk) \<longrightarrow>
        filter (emitted_under ''Command Timeout Counter'' ''harddrive_cmd_timeouts'')
          (emitted_by render item params sec value_store now) =
        fst (fst (check_command_timeout disk value_store now))"
    by (simp add: check_smart_ata'_resolved filter_before_timeouts filter_after_timeouts
        filter_timeouts_same)
qed

text \<open>The sample run with a baseline for attribute 188 and without one.\<close>

theorem baseline_188_is_ignored_witness:
  "check_smart_ata' sample_rendering ''sda'' (sample_params\<lparr>id_188 := Some 0\<rparr>)
       sample_section primed_store 3600 =
     check_smart_ata' sample_rendering ''sda'' (sample_params\<lparr>id_188 := None\<rparr>)
       sample_section primed_store 3600
   \<and> id_188 (sample_params\<lparr>id_188 := Some 0\<rparr>) \<noteq> id_188 (sample_params\<lparr>id_188 := None\<rparr>)
   \<and> map_of (devices sample_section) (key sample_params) = Some (ATA sample_disk)
   \<and> filter (emitted_under ''Command Timeout Counter'' ''harddrive_cmd_timeouts'')
        (emitted_by sample_rendering ''sda'' sample_params sample_section primed_store 3600) =
       [Result CRIT
          ''Command Timeout Counter: 101 (counter increased more than 100 counts / h (!!))'',
        Metric ''harddrive_cmd_timeouts'' 101]"
  using baseline_188_is_ignored [where render = sample_rendering and item = "''sda''"
      and params = sample_params and b = "Some 0" and sec = sample_section
      and value_store = primed_store and now = 3600 and disk = sample_disk]
    baseline_188_is_ignored [where render = sample_rendering and item = "''sda''"
      and params = sample_params and b = None and sec = sample_section
      and value_store = primed_store and now = 3600 and disk = sample_disk]
    sample_lookup sample_second_sample
  by simp

subsection \<open>The rate-based check (C3)\<close>




subsection \<open>Attribute 196 (C4)\<close>

text \<open>
  C4 says that the check emits the two results whenever attribute 196 is present on the
  resolved disk. The sample disk has attribute 196 with raw value 7 above the baseline 0,
  and attribute 188: with an empty store the run ends at the rate-based check, and
  neither result for attribute 196 is emitted.
\<close>

theorem reallocated_events_aborted_counterexample:
  "map_of (devices sample_section) (key sample_params) = Some (ATA sample_disk)
   \<and> by_id sample_disk 196 = Some (sample_entry 196 ''Reallocated_Event_Count'' 100 10 7)
   \<and> id_196 sample_params = Some 0
   \<and> check_smart_ata' sample_rendering ''sda'' sample_params sample_section Map.empty 3600 =
       (([Result OK ''Reallocated sectors: 0'', Metric ''harddrive_reallocated_sectors'' 0],
         Some GetRateError),
        [''cmd_timeout'' \<mapsto> (3600, 101)])
   \<and> filter (emitted_under ''Reallocated events'' ''harddrive_reallocated_events'')
        (emitted_by sample_rendering ''sda'' sample_params sample_section Map.empty 3600) = []
   \<and> filter (has_label ''Normalized value'')
        (emitted_by sample_rendering ''sda'' sample_params sample_section Map.empty 3600) = []"
  using sample_lookup sample_by_id(3) sample_aborted_run
  by (simp add: sample_params_def emitted_under_simps has_label_def)

text \<open>
  C4, amended. When attribute 196 is present on the resolved disk and the rate-based check
  returns (the disk has no attribute 188, or the store holds a sample for it that is older
  than \<open>now\<close>), the check emits, next to each other, the regression result on the raw
  value with its metric, and the lower-bound result on the normalized value. The state
  and the summary of the first depend on the raw value and the baseline only: it is CRIT
  exactly when a baseline is recorded and the raw value exceeds it, whatever the
  normalized value and the threshold are. The state and the summary of the second depend
  on the normalized value and the threshold only. Neither replaces or changes the other.
\<close>

theorem reallocated_events_two_results:
  "(map_of (devices sec) (key params) = Some (ATA disk) \<and> by_id disk 196 = Some e
     \<and> rate_returns disk store now \<longrightarrow>
   sublist
     [Result (case id_196 params of
                None \<Rightarrow> OK
              | Some B \<Rightarrow> if B < raw_value (attr_raw e) then CRIT else OK)
        (''Reallocated events: '' @ str_int (raw_value (attr_raw e))
         @ (case id_196 params of
              None \<Rightarrow> []
            | Some B \<Rightarrow>
                if B < raw_value (attr_raw e)
                then '' (during discovery: '' @ str_int B @ '') (!!)'' else [])),
      Metric ''harddrive_reallocated_events'' (raw_value (attr_raw e)),
      Result (if attr_value e < attr_thresh e then CRIT else OK)
        (''Normalized value: '' @ default_rendering render (attr_value e)
         @ (if attr_value e < attr_thresh e
            then '' (warn/crit below '' @ default_rendering render (attr_thresh e) @ ''/''
                   @ default_rendering render (attr_thresh e) @ '')''
            else []))]
     (emitted_by render item params sec store now))
   \<and> (map_of (devices sec) (key params) = Some (ATA disk) \<and> \<not> rate_returns disk store now \<longrightarrow>
        fst (check_smart_ata' render item params sec store now) =
          (yielded_before_rate render params disk, Some GetRateError))"
proof (intro conjI impI)
  assume a: "map_of (devices sec) (key params) = Some (ATA disk) \<and> by_id disk 196 = Some e
     \<and> rate_returns disk store now"
  have "emitted_by render item params sec store now =
      (yielded_before_rate render params disk @ fst (fst (check_command_timeout disk store now)))
      @ yielded_for_196 render params disk
      @ (yielded_for_197 params disk @ yielded_for_199 params disk)"
    using a check_smart_ata'_completed [of sec params disk store now render item] by simp
  then show "sublist
     [Result (case id_196 params of
                None \<Rightarrow> OK
              | Some B \<Rightarrow> if B < raw_value (attr_raw e) then CRIT else OK)
        (''Reallocated events: '' @ str_int (raw_value (attr_raw e))
         @ (case id_196 params of
              None \<Rightarrow> []
            | Some B \<Rightarrow>
                if B < raw_value (attr_raw e)
                then '' (during discovery: '' @ str_int B @ '') (!!)'' else [])),
      Metric ''harddrive_reallocated_events'' (raw_value (attr_raw e)),
      Result (if attr_value e < attr_thresh e then CRIT else OK)
        (''Normalized value: '' @ default_rendering render (attr_value e)
         @ (if attr_value e < attr_thresh e
            then '' (warn/crit below '' @ default_rendering render (attr_thresh e) @ ''/''
                   @ default_rendering render (attr_thresh e) @ '')''
            else []))]
     (emitted_by render item params sec store now)"
    using a yielded_for_196_present [of disk e render params]
    by (simp only: sublist_appendI)
next
  assume "map_of (devices sec) (key params) = Some (ATA disk) \<and> \<not> rate_returns disk store now"
  then show "fst (check_smart_ata' render item params sec store now) =
      (yielded_before_rate render params disk, Some GetRateError)"
    using check_smart_ata'_aborted [of sec params disk store now render item] by blast
qed

text \<open>
  Three runs: the regression result is CRIT while the normalized value is fine, the
  regression result is OK while the normalized value is below its threshold, and a first
  sample.
\<close>

theorem reallocated_events_two_results_witness:
  "map_of (devices sample_section) (key sample_params) = Some (ATA sample_disk)
   \<and> by_id sample_disk 196 = Some (sample_entry 196 ''Reallocated_Event_Count'' 100 10 7)
   \<and> rate_returns sample_disk primed_store 3600
   \<and> sublist
       [Result CRIT ''Reallocated events: 7 (during discovery: 0) (!!)'',
        Metric ''harddrive_reallocated_events'' 7,
        Result OK ''Normalized value: 100.00'']
       (emitted_by sample_rendering ''sda'' sample_params sample_section primed_store 3600)
   \<and> map_of (devices sample_section) (key quiet_params) = Some (ATA quiet_disk)
   \<and> by_id quiet_disk 196 = Some (sample_entry 196 ''Reallocated_Event_Count'' 9 10 0)
   \<and> rate_returns quiet_disk primed_store 3600
   \<and> sublist
       [Result OK ''Reallocated events: 0'',
        Metric ''harddrive_reallocated_events'' 0,
        Result CRIT ''Normalized value: 9.00 (warn/crit below 10.00/10.00)'']
       (emitted_by sample_rendering ''sdb'' quiet_params sample_section primed_store 3600)
   \<and> \<not> rate_returns sample_disk Map.empty 3600
   \<and> fst (check_smart_ata' sample_rendering ''sda'' sample_params sample_section Map.empty 3600) =
       ([Result OK ''Reallocated sectors: 0'', Metric ''harddrive_reallocated_sectors'' 0],
        Some GetRateError)"
  using reallocated_events_two_results [of sample_section sample_params sample_disk
      "sample_entry 196 ''Reallocated_Event_Count'' 100 10 7" primed_store 3600
      sample_rendering "''sda''"]
    reallocated_events_two_results [of sample_section quiet_params quiet_disk
      "sample_entry 196 ''Reallocated_Event_Count'' 9 10 0" primed_store 3600
      sample_rendering "''sdb''"]
    reallocated_events_two_results [of sample_section sample_params sample_disk
      "sample_entry 196 ''Reallocated_Event_Count'' 100 10 7" Map.empty 3600
      sample_rendering "''sda''"]
    sample_lookup sample_by_id(3) sample_rate_returns
    quiet_lookup quiet_by_id(2) quiet_rate_returns sample_not_rate_returns sample_before
  by (simp add: sample_entry_def sample_params_def quiet_params_def sample_rendering_def
      str_int_samples str_int_100 str_int_more)

subsection \<open>Attribute 199 (C5)\<close>

text \<open>
  C5 says that the check emits under exactly one of the two label and metric pairs
  whenever attribute 199 is present on the resolved disk. On the sample disk, which has
  the attributes 188 and 199, the run with an empty store ends at the rate-based check and
  emits under neither.
\<close>

theorem crc_errors_aborted_counterexample:
  "map_of (devices sample_section) (key sample_params) = Some (ATA sample_disk)
   \<and> by_id sample_disk 199 = Some (sample_entry 199 ''UDMA_CRC_Error_Count'' 200 0 3)
   \<and> emitted_by sample_rendering ''sda'' sample_params sample_section Map.empty 3600 =
       [Result OK ''Reallocated sectors: 0'', Metric ''harddrive_reallocated_sectors'' 0]
   \<and> filter (emitted_under ''UDMA CRC errors'' ''harddrive_udma_crc_errors'')
        (emitted_by sample_rendering ''sda'' sample_params sample_section Map.empty 3600) = []
   \<and> filter (emitted_under ''CRC errors'' ''harddrive_crc_errors'')
        (emitted_by sample_rendering ''sda'' sample_params sample_section Map.empty 3600) = []"
  using sample_lookup sample_by_id(4)
  by (simp add: sample_aborted_run emitted_under_simps has_label_def)

text \<open>
  C5, amended. When attribute 199 is present on the resolved disk and the rate-based check
  returns, everything the run emits under the label ``UDMA CRC errors'' or the metric
  \<^verbatim>\<open>harddrive_udma_crc_errors\<close>, or under the label ``CRC errors'' or the metric
  \<^verbatim>\<open>harddrive_crc_errors\<close>, is the regression result for attribute 199 under one of
  the two pairs: the first if the attribute's name equals \<^verbatim>\<open>UDMA_CRC_Error_Count\<close>, the
  second for any other name, and nothing under the other pair. When the rate-based check
  ends the run, the run emits under neither pair. For no input at all does a run emit
  under both pairs.
\<close>

theorem crc_errors_one_label:
  "(map_of (devices sec) (key params) = Some (ATA disk) \<and> by_id disk 199 = Some e
      \<and> rate_returns disk store now \<and> attr_name e = ''UDMA_CRC_Error_Count'' \<longrightarrow>
      filter (emitted_under ''UDMA CRC errors'' ''harddrive_udma_crc_errors'')
          (emitted_by render item params sec store now) =
        check_against_discovery (raw_value (attr_raw e)) (id_199 params)
          ''UDMA CRC errors'' ''harddrive_udma_crc_errors''
      \<and> filter (emitted_under ''CRC errors'' ''harddrive_crc_errors'')
          (emitted_by render item params sec store now) = [])
   \<and> (map_of (devices sec) (key params) = Some (ATA disk) \<and> by_id disk 199 = Some e
      \<and> rate_returns disk store now \<and> attr_name e \<noteq> ''UDMA_CRC_Error_Count'' \<longrightarrow>
      filter (emitted_under ''CRC errors'' ''harddrive_crc_errors'')
          (emitted_by render item params sec store now) =
        check_against_discovery (raw_value (attr_raw e)) (id_199 params)
          ''CRC errors'' ''harddrive_crc_errors''
      \<and> filter (emitted_under ''UDMA CRC errors'' ''harddrive_udma_crc_errors'')
          (emitted_by render item params sec store now) = [])
   \<and> (map_of (devices sec) (key params) = Some (ATA disk) \<and> \<not> rate_returns disk store now
        \<longrightarrow>
      filter (emitted_under ''UDMA CRC errors'' ''harddrive_udma_crc_errors'')
          (emitted_by render item params sec store now) = []
      \<and> filter (emitted_under ''CRC errors'' ''harddrive_crc_errors'')
          (emitted_by render item params sec store now) = [])
   \<and> (filter (emitted_under ''UDMA CRC errors'' ''harddrive_udma_crc_errors'')
          (emitted_by render item params sec store now) = []
      \<or> filter (emitted_under ''CRC errors'' ''harddrive_crc_errors'')
          (emitted_by render item params sec store now) = [])"
proof (intro conjI impI)
  assume a: "map_of (devices sec) (key params) = Some (ATA disk) \<and> by_id disk 199 = Some e
      \<and> rate_returns disk store now \<and> attr_name e = ''UDMA_CRC_Error_Count''"
  show "filter (emitted_under ''UDMA CRC errors'' ''harddrive_udma_crc_errors'')
          (emitted_by render item params sec store now) =
        check_against_discovery (raw_value (attr_raw e)) (id_199 params)
          ''UDMA CRC errors'' ''harddrive_udma_crc_errors''"
    using a filter_emitted_crc(1) [of sec params disk store now render item]
      filter_199_udma(1) [of disk e params]
    by simp
  show "filter (emitted_under ''CRC errors'' ''harddrive_crc_errors'')
          (emitted_by render item params sec store now) = []"
    using a filter_emitted_crc(2) [of sec params disk store now render item]
      filter_199_udma(2) [of disk e params]
    by simp
next
  assume a: "map_of (devices sec) (key params) = Some (ATA disk) \<and> by_id disk 199 = Some e
      \<and> rate_returns disk store now \<and> attr_name e \<noteq> ''UDMA_CRC_Error_Count''"
  show "filter (emitted_under ''CRC errors'' ''harddrive_crc_errors'')
          (emitted_by render item params sec store now) =
        check_against_discovery (raw_value (attr_raw e)) (id_199 params)
          ''CRC errors'' ''harddrive_crc_errors''"
    using a filter_emitted_crc(2) [of sec params disk store now render item]
      filter_199_generic(1) [of disk e params]
    by simp
  show "filter (emitted_under ''UDMA CRC errors'' ''harddrive_udma_crc_errors'')
          (emitted_by render item params sec store now) = []"
    using a filter_emitted_crc(1) [of sec params disk store now render item]
      filter_199_generic(2) [of disk e params]
    by simp
next
  assume a: "map_of (devices sec) (key params) = Some (ATA disk) \<and> \<not> rate_returns disk store now"
  show "filter (emitted_under ''UDMA CRC errors'' ''harddrive_udma_crc_errors'')
          (emitted_by render item params sec store now) = []"
    using a check_smart_ata'_aborted [of sec params disk store now render item]
    by (simp add: filter_before_udma)
  show "filter (emitted_under ''CRC errors'' ''harddrive_crc_errors'')
          (emitted_by render item params sec store now) = []"
    using a check_smart_ata'_aborted [of sec params disk store now render item]
    by (simp add: filter_before_crc)
next
  show "filter (emitted_under ''UDMA CRC errors'' ''harddrive_udma_crc_errors'')
          (emitted_by render item params sec store now) = []
      \<or> filter (emitted_under ''CRC errors'' ''harddrive_crc_errors'')
          (emitted_by render item params sec store now) = []"
  proof (cases rule: lookup_cases [of sec "key params"])
    case absent
    then show ?thesis by (simp add: check_smart_ata'_absent)
  next
    case (not_ata n)
    then show ?thesis by (simp add: check_smart_ata'_not_ata)
  next
    case (resolved disk')
    show ?thesis
    proof (cases "rate_returns disk' store now")
      case True
      then show ?thesis
        using filter_emitted_crc [OF resolved True, of render item]
          filter_199_never_both [of params disk']
        by simp
    next
      case False
      then show ?thesis
        by (simp add: check_smart_ata'_aborted [OF resolved False] filter_before_udma)
    qed
  qed
qed

text \<open>
  Three runs: a disk whose attribute 199 has the vendor name, one where it has not, and a
  first sample.
\<close>

theorem crc_errors_one_label_witness:
  "map_of (devices sample_section) (key sample_params) = Some (ATA sample_disk)
   \<and> by_id sample_disk 199 = Some (sample_entry 199 ''UDMA_CRC_Error_Count'' 200 0 3)
   \<and> rate_returns sample_disk primed_store 3600
   \<and> attr_name (sample_entry 199 ''UDMA_CRC_Error_Count'' 200 0 3) = ''UDMA_CRC_Error_Count''
   \<and> filter (emitted_under ''UDMA CRC errors'' ''harddrive_udma_crc_errors'')
        (emitted_by sample_rendering ''sda'' sample_params sample_section primed_store 3600) =
       [Result OK ''UDMA CRC errors: 3'', Metric ''harddrive_udma_crc_errors'' 3]
   \<and> filter (emitted_under ''CRC errors'' ''harddrive_crc_errors'')
        (emitted_by sample_rendering ''sda'' sample_params sample_section primed_store 3600) = []
   \<and> map_of (devices sample_section) (key quiet_params) = Some (ATA quiet_disk)
   \<and> by_id quiet_disk 199 = Some (sample_entry 199 ''CRC_Error_Count'' 200 0 4)
   \<and> rate_returns quiet_disk primed_store 3600
   \<and> attr_name (sample_entry 199 ''CRC_Error_Count'' 200 0 4) \<noteq> ''UDMA_CRC_Error_Count''
   \<and> filter (emitted_under ''CRC errors'' ''harddrive_crc_errors'')
        (emitted_by sample_rendering ''sdb'' quiet_params sample_section primed_store 3600) =
       [Result OK ''CRC errors: 4'', Metric ''harddrive_crc_errors'' 4]
   \<and> filter (emitted_under ''UDMA CRC errors'' ''harddrive_udma_crc_errors'')
        (emitted_by sample_rendering ''sdb'' quiet_params sample_section primed_store 3600) = []
   \<and> \<not> rate_returns sample_disk Map.empty 3600
   \<and> filter (emitted_under ''UDMA CRC errors'' ''harddrive_udma_crc_errors'')
        (emitted_by sample_rendering ''sda'' sample_params sample_section Map.empty 3600) = []
   \<and> filter (emitted_under ''CRC errors'' ''harddrive_crc_errors'')
        (emitted_by sample_rendering ''sda'' sample_params sample_section Map.empty 3600) = []"
  using crc_errors_one_label [of sample_section sample_params sample_disk
      "sample_entry 199 ''UDMA_CRC_Error_Count'' 200 0 3" primed_store 3600
      sample_rendering "''sda''"]
    crc_errors_one_label [of sample_section quiet_params quiet_disk
      "sample_entry 199 ''CRC_Error_Count'' 200 0 4" primed_store 3600
      sample_rendering "''sdb''"]
    crc_errors_one_label [of sample_section sample_params sample_disk
      "sample_entry 199 ''UDMA_CRC_Error_Count'' 200 0 3" Map.empty 3600
      sample_rendering "''sda''"]
    sample_lookup sample_by_id(4) sample_rate_returns
    quiet_lookup quiet_by_id(3) quiet_rate_returns sample_not_rate_returns
  by (simp add: sample_entry_def check_against_discovery_def sample_params_def
      quiet_params_def str_int_samples str_int_more)

subsection \<open>Silent skips (C6)\<close>

text \<open>
  C6. If the section has no disk under the discovered key, or the disk there is not an
  ATA record, the attribute check and the temperature check both yield nothing, end
  normally and leave the store as it is; the temperature check does the same when the
  resolved ATA disk has no temperature reading.
\<close>

theorem checks_skip_silently:
  "(map_of (devices sec) (key params) = None
      \<or> (\<exists>n. map_of (devices sec) (key params) = Some (NonATA n)) \<longrightarrow>
      check_smart_ata' render item params sec store now = (([], None), store))
   \<and> (map_of (devices sec) (key tparams) = None
      \<or> (\<exists>n. map_of (devices sec) (key tparams) = Some (NonATA n)) \<longrightarrow>
      check_smart_ata_temp check_temperature item tparams sec store = (([], None), store))
   \<and> (map_of (devices sec) (key tparams) = Some (ATA disk) \<and> temperature disk = None \<longrightarrow>
      check_smart_ata_temp check_temperature item tparams sec store = (([], None), store))"
proof (intro conjI impI)
  assume "map_of (devices sec) (key params) = None
      \<or> (\<exists>n. map_of (devices sec) (key params) = Some (NonATA n))"
  then show "check_smart_ata' render item params sec store now = (([], None), store)"
    using check_smart_ata'_absent check_smart_ata'_not_ata by blast
next
  assume "map_of (devices sec) (key tparams) = None
      \<or> (\<exists>n. map_of (devices sec) (key tparams) = Some (NonATA n))"
  then show "check_smart_ata_temp check_temperature item tparams sec store = (([], None), store)"
    by (auto simp add: check_smart_ata_temp_def)
next
  assume "map_of (devices sec) (key tparams) = Some (ATA disk) \<and> temperature disk = None"
  then show "check_smart_ata_temp check_temperature item tparams sec store = (([], None), store)"
    by (simp add: check_smart_ata_temp_def)
qed

text \<open>
  A key that is not in the sample section, the key of its NVMe disk, and its first ATA
  disk, which has no temperature reading.
\<close>

theorem checks_skip_silently_witness:
  "map_of (devices sample_section) (key (sample_params\<lparr>key := (''gone'', ''disk'')\<rparr>)) = None
   \<and> check_smart_ata' sample_rendering ''sda'' (sample_params\<lparr>key := (''gone'', ''disk'')\<rparr>)
        sample_section primed_store 3600 = (([], None), primed_store)
   \<and> map_of (devices sample_section) (key (sample_params\<lparr>key := nvme_key\<rparr>))
        = Some (NonATA ''/dev/nvme0'')
   \<and> check_smart_ata' sample_rendering ''nvme0'' (sample_params\<lparr>key := nvme_key\<rparr>)
        sample_section primed_store 3600 = (([], None), primed_store)
   \<and> check_smart_ata_temp sample_check_temperature ''sda'' \<lparr>key = (''gone'', ''disk'')\<rparr>
        sample_section primed_store = (([], None), primed_store)
   \<and> check_smart_ata_temp sample_check_temperature ''nvme0'' \<lparr>key = nvme_key\<rparr>
        sample_section primed_store = (([], None), primed_store)
   \<and> map_of (devices sample_section) (key \<lparr>key = sample_key\<rparr>) = Some (ATA sample_disk)
   \<and> temperature sample_disk = None
   \<and> check_smart_ata_temp sample_check_temperature ''sda'' \<lparr>key = sample_key\<rparr>
        sample_section primed_store = (([], None), primed_store)"
  using checks_skip_silently [where sec = sample_section
      and params = "sample_params\<lparr>key := (''gone'', ''disk'')\<rparr>"
      and tparams = "\<lparr>key = (''gone'', ''disk'')\<rparr>" and render = sample_rendering
      and item = "''sda''" and store = primed_store and now = 3600
      and check_temperature = sample_check_temperature]
    checks_skip_silently [where sec = sample_section
      and params = "sample_params\<lparr>key := nvme_key\<rparr>"
      and tparams = "\<lparr>key = nvme_key\<rparr>" and render = sample_rendering
      and item = "''nvme0''" and store = primed_store and now = 3600
      and check_temperature = sample_check_temperature]
    checks_skip_silently [where sec = sample_section
      and tparams = "\<lparr>key = sample_key\<rparr>" and disk = sample_disk
      and item = "''sda''" and store = primed_store
      and check_temperature = sample_check_temperature]
    nvme_lookup missing_lookup sample_lookup sample_temperature
  by (simp add: sample_params_def)

subsection \<open>Discovery of the baseline (C7)\<close>

text \<open>
  C7. Discovery emits, in the order of the section, one proposal for each ATA disk that
  has an attribute collection, and none for any other disk; the parameters of the
  proposal are the disk's key and, for each of the eight tracked IDs, the raw value of the
  attribute if the disk has it and nothing otherwise (\<open>baseline_of\<close>).
\<close>

theorem discovery_records_baseline:
  "discover_smart_ata get_item params sec =
     map (\<lambda>(k, d). Service (get_item d (fst (item_type params))) (baseline_of k (ata d)))
       (filter (\<lambda>(k, d). exposes_attributes d) (devices sec))"
  by (simp add: discover_smart_ata_def discover_smart_ata_loop_eq)

text \<open>
  The sample section has an NVMe disk, two ATA disks with attributes and one ATA disk
  without: two proposals.
\<close>

theorem discovery_records_baseline_witness:
  "discover_smart_ata sample_get_item \<lparr>item_type = (''device_name'', None)\<rparr> sample_section =
     [Service ''/dev/sda''
        \<lparr>key = sample_key, id_5 = Some 0, id_10 = None, id_184 = None, id_187 = None,
         id_188 = Some 101, id_196 = Some 7, id_197 = None, id_199 = Some 3\<rparr>,
      Service ''/dev/sdb''
        \<lparr>key = quiet_key, id_5 = None, id_10 = None, id_184 = None, id_187 = None,
         id_188 = Some 50, id_196 = Some 0, id_197 = None, id_199 = Some 4\<rparr>]"
  using discovery_records_baseline [of sample_get_item
      "\<lparr>item_type = (''device_name'', None)\<rparr>" sample_section]
  by (simp add: sample_section_def exposes_attributes_def baseline_of_def sample_by_id
      quiet_by_id sample_get_item_def sample_entry_def)
    (simp add: sample_disk_def quiet_disk_def bare_disk_def)

subsection \<open>Repeating a check (C8)\<close>

text \<open>
  C8. What a run of the attribute check yields and how it ends is determined by the
  parameters, the section, the timestamp and the store's entry for the command timeout
  counter: two stores that agree on this entry give the same results. The rate
  computation never divides by zero, and no run ends with \<open>ZeroDivisionError\<close>. A run
  replayed on the store the first run left, at the same timestamp, finds a sample that is
  not older than \<open>now\<close>: if the disk has attribute 188 it ends at the rate-based check
  with \<open>GetRateError\<close>, having yielded what precedes that check; and it leaves the store
  as the first run left it.
\<close>

theorem check_is_repeatable:
  "(store1 ''cmd_timeout'' = store2 ''cmd_timeout'' \<longrightarrow>
      fst (check_smart_ata' render item params sec store1 now) =
      fst (check_smart_ata' render item params sec store2 now))
   \<and> fst (get_rate store k now v) \<noteq> Inl ZeroDivisionError
   \<and> snd (fst (check_smart_ata' render item params sec store now)) \<noteq> Some ZeroDivisionError
   \<and> (map_of (devices sec) (key params) = Some (ATA disk) \<and> by_id disk 188 = Some c \<longrightarrow>
        fst (check_smart_ata' render item params sec
               (snd (check_smart_ata' render item params sec store now)) now) =
          (yielded_before_rate render params disk, Some GetRateError))
   \<and> snd (check_smart_ata' render item params sec
             (snd (check_smart_ata' render item params sec store now)) now) =
       snd (check_smart_ata' render item params sec store now)"
proof (intro conjI impI)
  assume "store1 ''cmd_timeout'' = store2 ''cmd_timeout''"
  then show "fst (check_smart_ata' render item params sec store1 now) =
      fst (check_smart_ata' render item params sec store2 now)"
    using check_smart_ata'_depends [of store1 store2 render item params sec now item] by simp
next
  show "fst (get_rate store k now v) \<noteq> Inl ZeroDivisionError"
    by (rule get_rate_no_zero_division)
next
  show "snd (fst (check_smart_ata' render item params sec store now)) \<noteq> Some ZeroDivisionError"
    using check_smart_ata'_error [of render item params sec store now] by auto
next
  assume "map_of (devices sec) (key params) = Some (ATA disk) \<and> by_id disk 188 = Some c"
  then show "fst (check_smart_ata' render item params sec
               (snd (check_smart_ata' render item params sec store now)) now) =
          (yielded_before_rate render params disk, Some GetRateError)"
    using check_smart_ata'_replay by blast
next
  show "snd (check_smart_ata' render item params sec
             (snd (check_smart_ata' render item params sec store now)) now) =
       snd (check_smart_ata' render item params sec store now)"
    by (rule check_smart_ata'_replay_store)
qed

text \<open>
  The sample run on two stores that differ outside the entry of the counter, and the
  sample run replayed at its timestamp.
\<close>

theorem check_is_repeatable_witness:
  "primed_store ''cmd_timeout'' = (primed_store(''temp.smart_sda'' \<mapsto> (3000, 31))) ''cmd_timeout''
   \<and> fst (check_smart_ata' sample_rendering ''sda'' sample_params sample_section
             primed_store 3600) =
       fst (check_smart_ata' sample_rendering ''sda'' sample_params sample_section
             (primed_store(''temp.smart_sda'' \<mapsto> (3000, 31))) 3600)
   \<and> map_of (devices sample_section) (key sample_params) = Some (ATA sample_disk)
   \<and> by_id sample_disk 188 = Some (sample_entry 188 ''Command_Timeout'' 100 0 101)
   \<and> fst (check_smart_ata' sample_rendering ''sda'' sample_params sample_section
             (snd (check_smart_ata' sample_rendering ''sda'' sample_params sample_section
                     primed_store 3600)) 3600) =
       ([Result OK ''Reallocated sectors: 0'', Metric ''harddrive_reallocated_sectors'' 0],
        Some GetRateError)"
  using check_is_repeatable [where ?store1.0 = primed_store
      and ?store2.0 = "primed_store(''temp.smart_sda'' \<mapsto> (3000, 31))"
      and render = sample_rendering and item = "''sda''" and params = sample_params
      and sec = sample_section and now = 3600 and store = primed_store and disk = sample_disk
      and c = "sample_entry 188 ''Command_Timeout'' 100 0 101"]
    sample_lookup sample_by_id(2) sample_before
  by simp

subsection \<open>The check does not rewrite its parameters (C9)\<close>



subsection \<open>The normalized value of attribute 196 (C10)\<close>



end
